theory Spec2Isabelle
  imports
    Main
    "HOL-Library.Multiset"
    "HOL-Library.Char_ord"
    "HOL-Library.List_Lexorder"
    "HOL-Library.Word"
begin

section \<open>The CSR authorization engine of the cluster machine approver\<close>

text \<open>
  A shallow embedding of \<^verbatim>\<open>pkg/controller/csr_check.go\<close>. Every Go function of
  that file that takes part in a decision is a HOL function of the same name. Go's
  \<^verbatim>\<open>(bool, error)\<close> results are pairs \<open>bool \<times> error option\<close>, where \<open>None\<close> is the
  \<^verbatim>\<open>nil\<close> error; pointers that the code tests against \<^verbatim>\<open>nil\<close> are options.
\<close>

subsection \<open>Constants\<close>

definition nodeUser :: string where
  "nodeUser = ''system:node''"

definition nodeGroup :: string where
  "nodeGroup = ''system:nodes''"

definition nodeUserPrefix :: string where
  "nodeUserPrefix = nodeUser @ '':''"

text \<open>
  A \<^verbatim>\<open>time.Time\<close> is an instant, counted in nanoseconds from a fixed epoch; a
  \<^verbatim>\<open>time.Duration\<close> is a number of nanoseconds. Both are unbounded integers here:
  the instants the API server hands out are centuries away from the ends of Go's range.
\<close>

type_synonym Time = int
type_synonym Duration = int

definition Second :: Duration where
  "Second = 1000000000"

definition Hour :: Duration where
  "Hour = 3600 * Second"

definition maxPendingDelta :: Duration where
  "maxPendingDelta = Hour"

definition maxMachineClockSkew :: Duration where
  "maxMachineClockSkew = 10 * Second"

definition maxMachineDelta :: Duration where
  "maxMachineDelta = 2 * Hour"

definition nodeBootstrapperUsername :: string where
  "nodeBootstrapperUsername =
     ''system:serviceaccount:openshift-machine-config-operator:node-bootstrapper''"

definition nodeBootstrapperGroups :: "string set" where
  "nodeBootstrapperGroups =
     {''system:serviceaccounts:openshift-machine-config-operator'',
      ''system:serviceaccounts'',
      ''system:authenticated''}"

text \<open>
  The string constants of the Kubernetes API packages that the file refers to
  (\<^verbatim>\<open>corev1.NodeAddressType\<close>, \<^verbatim>\<open>certificatesv1.KeyUsage\<close> and
  \<^verbatim>\<open>certificatesv1.RequestConditionType\<close> are string types).
\<close>

type_synonym NodeAddressType = string

definition NodeHostName :: NodeAddressType where
  "NodeHostName = ''Hostname''"

definition NodeInternalIP :: NodeAddressType where
  "NodeInternalIP = ''InternalIP''"

definition NodeExternalIP :: NodeAddressType where
  "NodeExternalIP = ''ExternalIP''"

definition NodeInternalDNS :: NodeAddressType where
  "NodeInternalDNS = ''InternalDNS''"

definition NodeExternalDNS :: NodeAddressType where
  "NodeExternalDNS = ''ExternalDNS''"

definition UsageDigitalSignature :: string where
  "UsageDigitalSignature = ''digital signature''"

definition UsageKeyEncipherment :: string where
  "UsageKeyEncipherment = ''key encipherment''"

definition UsageServerAuth :: string where
  "UsageServerAuth = ''server auth''"

definition CertificateApproved :: string where
  "CertificateApproved = ''Approved''"

subsection \<open>Data model\<close>

record NodeAddress =
  addr_Type :: NodeAddressType
  addr_Address :: string

text \<open>
  A Machine, with the fields the file reads: \<^verbatim>\<open>CreationTimestamp\<close>,
  \<^verbatim>\<open>Status.NodeRef\<close> (a pointer; only its \<^verbatim>\<open>Name\<close> is read) and
  \<^verbatim>\<open>Status.Addresses\<close>.
\<close>

record Machine =
  m_CreationTimestamp :: Time
  m_NodeRef :: "string option"
  m_Addresses :: "NodeAddress list"

record Node =
  node_Name :: string
  node_Addresses :: "NodeAddress list"
  node_KubeletPort :: "32 word"

record CertificateSigningRequestCondition =
  cond_Type :: string

text \<open>The CertificateSigningRequest object: metadata, spec and status.\<close>

record CertificateSigningRequest =
  req_Name :: string
  req_CreationTimestamp :: Time
  req_Username :: string
  req_Groups :: "string list"
  req_Usages :: "string list"
  req_Conditions :: "CertificateSigningRequestCondition list"

text \<open>
  A \<^verbatim>\<open>net.IP\<close> is a byte slice. A \<^verbatim>\<open>*url.URL\<close> is kept abstract (the type
  variable \<open>'url\<close>): the file only calls its \<^verbatim>\<open>String\<close> method.
\<close>

type_synonym IP = "8 word list"

record 'url CertificateRequest =
  csr_CommonName :: string
  csr_Organization :: "string list"
  csr_DNSNames :: "string list"
  csr_EmailAddresses :: "string list"
  csr_IPAddresses :: "IP list"
  csr_URIs :: "'url list"

record 'url Certificate =
  cert_CommonName :: string
  cert_DNSNames :: "string list"
  cert_EmailAddresses :: "string list"
  cert_IPAddresses :: "IP list"
  cert_URIs :: "'url list"

type_synonym 'url CertPool = "'url Certificate list"

record 'url VerifyOptions =
  Roots :: "'url CertPool option"

record ClusterMachineApproverConfig =
  NodeClientCert_Disabled :: bool

text \<open>
  Errors. Each \<^verbatim>\<open>fmt.Errorf\<close> of the file has a constructor that carries the
  values the message is formatted from. \<open>StatusNotFound\<close> is an API error for which
  \<^verbatim>\<open>apierrors.IsNotFound\<close> holds; \<open>ExternalError\<close> is any other error that the
  API client, the TLS dial or the certificate verification hands back.
\<close>

datatype error =
    TooFewGroups
  | GroupsMissing "string list"
  | TooFewUsages
  | MissingUsages "string list"
  | MismatchedCommonName string string
  | OrganizationMissing "string list"
  | FlowDisabled string
  | UnableToFindMachine
  | DNSNameNotInMachine string "string list"
  | IPAddressNotInMachine string "string list"
  | FailedGetNodes string
  | FailedToFindMachine string
  | NotProvided
  | BadCommonName
  | CommonNameMismatch
  | SANMismatch
  | NoCAFound
  | NoInternalAddresses string
  | StatusNotFound string
  | ExternalError string

fun IsNotFound :: "error option \<Rightarrow> bool" where
  "IsNotFound (Some (StatusNotFound _)) = True"
| "IsNotFound _ = False"

text \<open>
  The API client, as far as the file uses it: \<^verbatim>\<open>c.Get\<close> of a Node by name either
  fails with an error or fills in the Node.
\<close>

type_synonym Client = "string \<Rightarrow> error + Node"

definition Get_err :: "Client \<Rightarrow> string \<Rightarrow> error option" where
  "Get_err c name = (case c name of Inl err \<Rightarrow> Some err | Inr _ \<Rightarrow> None)"

text \<open>
  What the file calls and does not define: the \<^verbatim>\<open>String\<close> methods of
  \<^verbatim>\<open>net.IP\<close> and \<^verbatim>\<open>url.URL\<close>, \<^verbatim>\<open>x509.Certificate.Verify\<close>, the TLS
  dial to a kubelet (host, port and root pool in; an error or the peer's leaf certificate
  out), and \<^verbatim>\<open>isNodeClientCert\<close>, which lives in another file of the package. They
  are the fields of one record that the functions below take as an argument, so every
  theorem holds whatever these do.
\<close>

record 'url externals =
  ipString :: "IP \<Rightarrow> string"
  urlString :: "'url \<Rightarrow> string"
  x509Verify :: "'url Certificate \<Rightarrow> 'url VerifyOptions \<Rightarrow> error option"
  tlsDial :: "string \<Rightarrow> 32 word \<Rightarrow> 'url CertPool \<Rightarrow> error + 'url Certificate"
  isNodeClientCert :: "CertificateSigningRequest \<Rightarrow> 'url CertificateRequest \<Rightarrow> bool"

subsection \<open>String helpers of the Go library\<close>

definition HasPrefix :: "string \<Rightarrow> string \<Rightarrow> bool" where
  "HasPrefix s p = (take (length p) s = p)"

definition TrimPrefix :: "string \<Rightarrow> string \<Rightarrow> string" where
  "TrimPrefix s p = (if HasPrefix s p then drop (length p) s else s)"

subsection \<open>SAN comparison utilities\<close>

text \<open>
  \<^verbatim>\<open>sort.Strings\<close> sorts by the byte-wise lexicographic order of Go strings, which is
  the order of \<open>char list\<close>; \<^verbatim>\<open>reflect.DeepEqual\<close> of two string slices that are both
  nil or both non-nil is equality of lists.
\<close>

definition equalStrings :: "string list \<Rightarrow> string list \<Rightarrow> bool" where
  "equalStrings a b = (sort a = sort b)"

definition equalURLs :: "('url \<Rightarrow> string) \<Rightarrow> 'url list \<Rightarrow> 'url list \<Rightarrow> bool" where
  "equalURLs str a b =
     (if length a \<noteq> length b then False
      else sort (map str a) = sort (map str b))"

definition equalIPAddresses :: "(IP \<Rightarrow> string) \<Rightarrow> IP list \<Rightarrow> IP list \<Rightarrow> bool" where
  "equalIPAddresses str a b =
     (if length a \<noteq> length b then False
      else sort (map str a) = sort (map str b))"

subsection \<open>Machine index\<close>

text \<open>
  Both lookups return \<open>None\<close> where the Go returns \<^verbatim>\<open>(Machine{}, false)\<close>, and
  the first Machine in the order of the snapshot otherwise. \<open>hasInternalDNS\<close> is the
  inner loop of \<^verbatim>\<open>findMatchingMachineFromInternalDNS\<close> over the addresses of one
  Machine.
\<close>

fun findMatchingMachineFromNodeRef :: "string \<Rightarrow> Machine list \<Rightarrow> Machine option" where
  "findMatchingMachineFromNodeRef nodeName [] = None"
| "findMatchingMachineFromNodeRef nodeName (machine # machines) =
     (if m_NodeRef machine \<noteq> None \<and> the (m_NodeRef machine) = nodeName then Some machine
      else findMatchingMachineFromNodeRef nodeName machines)"

fun hasInternalDNS :: "string \<Rightarrow> NodeAddress list \<Rightarrow> bool" where
  "hasInternalDNS nodeName [] = False"
| "hasInternalDNS nodeName (address # addresses) =
     (if addr_Type address = NodeInternalDNS \<and> addr_Address address = nodeName then True
      else hasInternalDNS nodeName addresses)"

fun findMatchingMachineFromInternalDNS :: "string \<Rightarrow> Machine list \<Rightarrow> Machine option" where
  "findMatchingMachineFromInternalDNS nodeName [] = None"
| "findMatchingMachineFromInternalDNS nodeName (machine # machines) =
     (if hasInternalDNS nodeName (m_Addresses machine) then Some machine
      else findMatchingMachineFromInternalDNS nodeName machines)"

subsection \<open>Time windows and the backlog count\<close>

definition inTimeSpan :: "Time \<Rightarrow> Time \<Rightarrow> Time \<Rightarrow> bool" where
  "inTimeSpan start finish check = (check > start \<and> check < finish)"

fun conditionsApproved :: "CertificateSigningRequestCondition list \<Rightarrow> bool" where
  "conditionsApproved [] = False"
| "conditionsApproved (condition # conditions) =
     (if cond_Type condition = CertificateApproved then True
      else conditionsApproved conditions)"

definition isApproved :: "CertificateSigningRequest \<Rightarrow> bool" where
  "isApproved csr = conditionsApproved (req_Conditions csr)"

text \<open>
  The loop of \<^verbatim>\<open>recentlyPendingCSRs\<close>, with its counter \<^verbatim>\<open>pending\<close> as an
  accumulator. The clock \<^verbatim>\<open>now\<close> is a package variable; its reading is the first
  argument of \<open>recentlyPendingCSRs\<close>. The counter is a Go \<^verbatim>\<open>int\<close>; it counts
  elements of a slice, so it stays below the 64-bit bound and is an integer here.
\<close>

fun countPending :: "Time \<Rightarrow> Time \<Rightarrow> CertificateSigningRequest list \<Rightarrow> int \<Rightarrow> int" where
  "countPending start finish [] pending = pending"
| "countPending start finish (csr # csrs) pending =
     (if \<not> inTimeSpan start finish (req_CreationTimestamp csr)
      then countPending start finish csrs pending
      else if \<not> isApproved csr then countPending start finish csrs (pending + 1)
      else countPending start finish csrs pending)"

definition recentlyPendingCSRs :: "Time \<Rightarrow> CertificateSigningRequest list \<Rightarrow> int" where
  "recentlyPendingCSRs currentTime csrs =
     (let start = currentTime + (- maxPendingDelta);
          finish = currentTime + maxMachineClockSkew
      in countPending start finish csrs 0)"

subsection \<open>CSR shape checks\<close>

text \<open>
  \<^verbatim>\<open>validateCSRContents\<close> returns the name of the asking node and an error. The two
  sets built with \<^verbatim>\<open>sets.NewString\<close> are only asked for members
  (\<^verbatim>\<open>HasAll\<close>); the copy loop over the three usages is the identity on a list of
  length three; the loop over the organizations is a membership test.
\<close>

definition validateCSRContents ::
  "CertificateSigningRequest \<Rightarrow> 'url CertificateRequest \<Rightarrow> string \<times> error option" where
  "validateCSRContents req csr =
     (if \<not> HasPrefix (req_Username req) nodeUserPrefix then ('''', None)
      else
        let nodeAsking = TrimPrefix (req_Username req) nodeUserPrefix in
        if length nodeAsking = 0 then ('''', None)
        else if length (req_Groups req) < 2 then ('''', Some TooFewGroups)
        else if \<not> (nodeGroup \<in> set (req_Groups req)
                    \<and> ''system:authenticated'' \<in> set (req_Groups req))
          then ('''', Some (GroupsMissing (req_Groups req)))
        else if length (req_Usages req) \<noteq> 3 then ('''', Some TooFewUsages)
        else if \<not> (UsageDigitalSignature \<in> set (req_Usages req)
                    \<and> UsageKeyEncipherment \<in> set (req_Usages req)
                    \<and> UsageServerAuth \<in> set (req_Usages req))
          then ('''', Some (MissingUsages (req_Usages req)))
        else if csr_CommonName csr \<noteq> req_Username req
          then ('''', Some (MismatchedCommonName (csr_CommonName csr) (req_Username req)))
        else if \<not> (nodeGroup \<in> set (csr_Organization csr))
          then ('''', Some (OrganizationMissing (csr_Organization csr)))
        else (nodeAsking, None))"

text \<open>\<^verbatim>\<open>sets.String.Equal\<close> is equality of the two sets.\<close>

definition isReqFromNodeBootstrapper :: "CertificateSigningRequest \<Rightarrow> bool" where
  "isReqFromNodeBootstrapper req =
     (req_Username req = nodeBootstrapperUsername
      \<and> nodeBootstrapperGroups = set (req_Groups req))"

subsection \<open>Bootstrap authorizer\<close>

definition authorizeNodeClientCSR ::
  "Client \<Rightarrow> Machine list \<Rightarrow> CertificateSigningRequest \<Rightarrow> 'url CertificateRequest
     \<Rightarrow> bool \<times> error option" where
  "authorizeNodeClientCSR c machines req csr =
     (if \<not> isReqFromNodeBootstrapper req then (False, None)
      else
        let nodeName = TrimPrefix (csr_CommonName csr) nodeUserPrefix in
        if length nodeName = 0 then (False, None)
        else
          let err = Get_err c nodeName in
          if err \<noteq> None \<and> \<not> IsNotFound err then (False, Some (FailedGetNodes nodeName))
          else if err = None then (False, None)
          else
            case findMatchingMachineFromInternalDNS nodeName machines of
              None \<Rightarrow> (False, Some (FailedToFindMachine nodeName))
            | Some nodeMachine \<Rightarrow>
                if m_NodeRef nodeMachine \<noteq> None then (False, None)
                else
                  let start = m_CreationTimestamp nodeMachine + (- maxMachineClockSkew);
                      finish = m_CreationTimestamp nodeMachine + maxMachineDelta
                  in
                    if \<not> inTimeSpan start finish (req_CreationTimestamp req)
                    then (False, None)
                    else (True, None))"

subsection \<open>Serving-renewal authorizer and kubelet probe\<close>

definition authorizeServingRenewal ::
  "'url externals \<Rightarrow> string \<Rightarrow> 'url CertificateRequest option \<Rightarrow> 'url Certificate option
     \<Rightarrow> 'url VerifyOptions \<Rightarrow> error option" where
  "authorizeServingRenewal ext nodeName csr currentCert options =
     (if csr = None \<or> currentCert = None \<or> Roots options = None then Some NotProvided
      else
        case x509Verify ext (the currentCert) options of
          Some err \<Rightarrow> Some err
        | None \<Rightarrow>
            if cert_CommonName (the currentCert) \<noteq> nodeUser @ '':'' @ nodeName
              then Some BadCommonName
            else if cert_CommonName (the currentCert) \<noteq> csr_CommonName (the csr)
              then Some CommonNameMismatch
            else
              let match =
                equalStrings (cert_DNSNames (the currentCert)) (csr_DNSNames (the csr))
                \<and> equalStrings (cert_EmailAddresses (the currentCert))
                    (csr_EmailAddresses (the csr))
                \<and> equalIPAddresses (ipString ext) (cert_IPAddresses (the currentCert))
                    (csr_IPAddresses (the csr))
                \<and> equalURLs (urlString ext) (cert_URIs (the currentCert)) (csr_URIs (the csr))
              in if \<not> match then Some SANMismatch else None)"

text \<open>\<open>nodeInternalIP_addrs\<close> is the loop of \<^verbatim>\<open>nodeInternalIP\<close> over the addresses of the Node.\<close>

fun nodeInternalIP_addrs :: "string \<Rightarrow> NodeAddress list \<Rightarrow> error + string" where
  "nodeInternalIP_addrs name [] = Inl (NoInternalAddresses name)"
| "nodeInternalIP_addrs name (address # addresses) =
     (if addr_Type address = NodeInternalIP then Inr (addr_Address address)
      else nodeInternalIP_addrs name addresses)"

definition nodeInternalIP :: "Node \<Rightarrow> error + string" where
  "nodeInternalIP node = nodeInternalIP_addrs (node_Name node) (node_Addresses node)"

text \<open>
  \<^verbatim>\<open>getServingCert\<close> returns \<^verbatim>\<open>(nil, err)\<close> or \<^verbatim>\<open>(cert, nil)\<close>: a sum. The
  dial is handed the host, the kubelet port and the pool; the host is also the expected
  server name.
\<close>

definition getServingCert ::
  "'url externals \<Rightarrow> Client \<Rightarrow> string \<Rightarrow> 'url CertPool option \<Rightarrow> error + 'url Certificate" where
  "getServingCert ext c nodeName ca =
     (case ca of
        None \<Rightarrow> Inl NoCAFound
      | Some pool \<Rightarrow>
          (case c nodeName of
             Inl err \<Rightarrow> Inl err
           | Inr node \<Rightarrow>
               (case nodeInternalIP node of
                  Inl err \<Rightarrow> Inl err
                | Inr host \<Rightarrow> tlsDial ext host (node_KubeletPort node) pool)))"

subsection \<open>Serving authorizer and dispatcher\<close>

text \<open>
  The renewal attempt of \<^verbatim>\<open>authorizeCSR\<close> (the block guarded by
  \<^verbatim>\<open>ca != nil\<close>): true exactly when that block returns \<^verbatim>\<open>(true, nil)\<close>. In
  every other case the block only logs and control falls through.
\<close>

definition renewalAuthorized ::
  "'url externals \<Rightarrow> Client \<Rightarrow> string \<Rightarrow> 'url CertificateRequest \<Rightarrow> 'url CertPool option
     \<Rightarrow> bool" where
  "renewalAuthorized ext c nodeAsking csr ca =
     (if ca \<noteq> None then
        (case getServingCert ext c nodeAsking ca of
           Inl err \<Rightarrow> False
         | Inr servingCert \<Rightarrow>
             authorizeServingRenewal ext nodeAsking (Some csr) (Some servingCert)
               \<lparr>Roots = ca\<rparr> = None)
      else False)"

text \<open>
  The inner loops over the addresses of the target Machine, with the two loop variables
  \<^verbatim>\<open>foundSan\<close> and \<^verbatim>\<open>attemptedAddresses\<close> as a pair. The \<^verbatim>\<open>break\<close> inside
  the \<^verbatim>\<open>switch\<close> leaves the switch, not the loop, so the scan always runs to the end
  of the list.
\<close>

fun scanDNSAddresses ::
  "string \<Rightarrow> NodeAddress list \<Rightarrow> bool \<times> string list \<Rightarrow> bool \<times> string list" where
  "scanDNSAddresses san [] (foundSan, attemptedAddresses) = (foundSan, attemptedAddresses)"
| "scanDNSAddresses san (addr # addrs) (foundSan, attemptedAddresses) =
     (if addr_Type addr = NodeInternalDNS \<or> addr_Type addr = NodeExternalDNS
          \<or> addr_Type addr = NodeHostName
      then
        if san = addr_Address addr
        then scanDNSAddresses san addrs (True, attemptedAddresses)
        else scanDNSAddresses san addrs (foundSan, attemptedAddresses @ [addr_Address addr])
      else scanDNSAddresses san addrs (foundSan, attemptedAddresses))"

fun scanIPAddresses ::
  "string \<Rightarrow> NodeAddress list \<Rightarrow> bool \<times> string list \<Rightarrow> bool \<times> string list" where
  "scanIPAddresses sanString [] (foundSan, attemptedAddresses) =
     (foundSan, attemptedAddresses)"
| "scanIPAddresses sanString (addr # addrs) (foundSan, attemptedAddresses) =
     (if addr_Type addr = NodeInternalIP \<or> addr_Type addr = NodeExternalIP
      then
        if sanString = addr_Address addr
        then scanIPAddresses sanString addrs (True, attemptedAddresses)
        else scanIPAddresses sanString addrs
               (foundSan, attemptedAddresses @ [addr_Address addr])
      else scanIPAddresses sanString addrs (foundSan, attemptedAddresses))"

text \<open>
  The outer loops over the SANs of the request: \<open>Some err\<close> is the
  \<^verbatim>\<open>return false, err\<close> inside the loop, \<open>None\<close> is the loop running to its end.
\<close>

fun checkDNSNames :: "string list \<Rightarrow> NodeAddress list \<Rightarrow> error option" where
  "checkDNSNames [] addresses = None"
| "checkDNSNames (san # sans) addresses =
     (if length san = 0 then checkDNSNames sans addresses
      else
        case scanDNSAddresses san addresses (False, []) of
          (foundSan, attemptedAddresses) \<Rightarrow>
            if \<not> foundSan then Some (DNSNameNotInMachine san attemptedAddresses)
            else checkDNSNames sans addresses)"

fun checkIPAddresses :: "(IP \<Rightarrow> string) \<Rightarrow> IP list \<Rightarrow> NodeAddress list \<Rightarrow> error option" where
  "checkIPAddresses str [] addresses = None"
| "checkIPAddresses str (san # sans) addresses =
     (if length san = 0 then checkIPAddresses str sans addresses
      else
        case scanIPAddresses (str san) addresses (False, []) of
          (foundSan, attemptedAddresses) \<Rightarrow>
            if \<not> foundSan then Some (IPAddressNotInMachine (str san) attemptedAddresses)
            else checkIPAddresses str sans addresses)"

definition authorizeCSR ::
  "'url externals \<Rightarrow> Client \<Rightarrow> ClusterMachineApproverConfig \<Rightarrow> Machine list
     \<Rightarrow> CertificateSigningRequest option \<Rightarrow> 'url CertificateRequest option
     \<Rightarrow> 'url CertPool option \<Rightarrow> bool \<times> error option" where
  "authorizeCSR ext c config machines req csr ca =
     (if req = None \<or> csr = None then (False, None)
      else if isNodeClientCert ext (the req) (the csr) then
        if NodeClientCert_Disabled config
        then (False, Some (FlowDisabled (req_Name (the req))))
        else authorizeNodeClientCSR c machines (the req) (the csr)
      else
        case validateCSRContents (the req) (the csr) of
          (nodeAsking, err) \<Rightarrow>
            if nodeAsking = '''' \<or> err \<noteq> None then (False, None)
            else if renewalAuthorized ext c nodeAsking (the csr) ca then (True, None)
            else
              (case findMatchingMachineFromNodeRef nodeAsking machines of
                 None \<Rightarrow> (False, Some UnableToFindMachine)
               | Some targetMachine \<Rightarrow>
                   (case checkDNSNames (csr_DNSNames (the csr)) (m_Addresses targetMachine) of
                      Some e \<Rightarrow> (False, Some e)
                    | None \<Rightarrow>
                        (case checkIPAddresses (ipString ext) (csr_IPAddresses (the csr))
                                (m_Addresses targetMachine) of
                           Some e \<Rightarrow> (False, Some e)
                         | None \<Rightarrow> (True, None)))))"

subsection \<open>Sample inputs\<close>

text \<open>
  The objects of the end-to-end scenarios, used where a theorem is applied to a concrete
  input. \<open>T0\<close> is 2024-01-01T00:00:00Z counted from the Unix epoch.
\<close>

definition T0 :: Time where
  "T0 = 1704067200 * Second"

definition machine_m1 :: Machine where
  "machine_m1 =
     \<lparr>m_CreationTimestamp = T0, m_NodeRef = None,
      m_Addresses = [\<lparr>addr_Type = ''InternalDNS'', addr_Address = ''ip-10-0-1-5''\<rparr>]\<rparr>"

definition machine_m1_bound :: Machine where
  "machine_m1_bound =
     \<lparr>m_CreationTimestamp = T0, m_NodeRef = Some ''ip-10-0-1-5'',
      m_Addresses = [\<lparr>addr_Type = ''InternalDNS'', addr_Address = ''ip-10-0-1-5''\<rparr>]\<rparr>"

definition machine_m2 :: Machine where
  "machine_m2 =
     \<lparr>m_CreationTimestamp = T0, m_NodeRef = Some ''ip-10-0-1-6'',
      m_Addresses = [\<lparr>addr_Type = ''InternalIP'', addr_Address = ''10.0.1.6''\<rparr>,
                     \<lparr>addr_Type = ''InternalDNS'', addr_Address = ''ip-10-0-1-6''\<rparr>]\<rparr>"

definition node_n2 :: Node where
  "node_n2 =
     \<lparr>node_Name = ''ip-10-0-1-6'',
      node_Addresses = [\<lparr>addr_Type = ''InternalIP'', addr_Address = ''10.0.1.6''\<rparr>],
      node_KubeletPort = 10250\<rparr>"

definition bootstrap_req :: "Time \<Rightarrow> CertificateSigningRequest" where
  "bootstrap_req created =
     \<lparr>req_Name = ''csr-bootstrap'', req_CreationTimestamp = created,
      req_Username =
        ''system:serviceaccount:openshift-machine-config-operator:node-bootstrapper'',
      req_Groups = [''system:serviceaccounts:openshift-machine-config-operator'',
                    ''system:serviceaccounts'', ''system:authenticated''],
      req_Usages = [''digital signature'', ''key encipherment'', ''client auth''],
      req_Conditions = []\<rparr>"

definition bootstrap_csr :: "string CertificateRequest" where
  "bootstrap_csr =
     \<lparr>csr_CommonName = ''system:node:ip-10-0-1-5'', csr_Organization = [''system:nodes''],
      csr_DNSNames = [], csr_EmailAddresses = [], csr_IPAddresses = [], csr_URIs = []\<rparr>"

definition serving_req :: CertificateSigningRequest where
  "serving_req =
     \<lparr>req_Name = ''csr-serving'', req_CreationTimestamp = T0,
      req_Username = ''system:node:ip-10-0-1-6'',
      req_Groups = [''system:nodes'', ''system:authenticated''],
      req_Usages = [''digital signature'', ''key encipherment'', ''server auth''],
      req_Conditions = []\<rparr>"

definition serving_csr :: "IP \<Rightarrow> string CertificateRequest" where
  "serving_csr ip =
     \<lparr>csr_CommonName = ''system:node:ip-10-0-1-6'', csr_Organization = [''system:nodes''],
      csr_DNSNames = [''ip-10-0-1-6''], csr_EmailAddresses = [], csr_IPAddresses = [ip],
      csr_URIs = []\<rparr>"

definition serving_cert :: "string Certificate" where
  "serving_cert =
     \<lparr>cert_CommonName = ''system:node:ip-10-0-1-6'', cert_DNSNames = [''ip-10-0-1-6''],
      cert_EmailAddresses = [], cert_IPAddresses = [[10, 0, 1, 6]], cert_URIs = []\<rparr>"

text \<open>A root certificate, the only member of the sample CA pool.\<close>

definition kubelet_ca :: "string Certificate" where
  "kubelet_ca =
     \<lparr>cert_CommonName = ''kubelet-signer'', cert_DNSNames = [], cert_EmailAddresses = [],
      cert_IPAddresses = [], cert_URIs = []\<rparr>"

text \<open>Three API clients: no Node exists; Node \<open>ip-10-0-1-6\<close> exists; every call fails.\<close>

definition no_nodes :: Client where
  "no_nodes = (\<lambda>name. Inl (StatusNotFound name))"

definition one_node :: Client where
  "one_node = (\<lambda>name. if name = ''ip-10-0-1-6'' then Inr node_n2
                        else Inl (StatusNotFound name))"

definition failing_api :: Client where
  "failing_api = (\<lambda>name. Inl (ExternalError ''connection refused''))"

text \<open>
  A stand-in for \<^verbatim>\<open>net.IP.String\<close> that prints the two addresses of the scenarios as
  Go does.
\<close>

definition sample_ipString :: "IP \<Rightarrow> string" where
  "sample_ipString ip =
     (if ip = [10, 0, 1, 6] then ''10.0.1.6''
      else if ip = [10, 0, 2, 2] then ''10.0.2.2''
      else ''?'')"

text \<open>
  Modelled from the spec: \<^verbatim>\<open>isNodeClientCert\<close> is not in the file. Of the
  classifier of a node-client-bootstrap request, the two conditions that
  \<^verbatim>\<open>isReqFromNodeBootstrapper\<close> does not check: the subject common name begins with
  \<open>system:node:\<close> followed by a non-empty name, and the requested usages are exactly
  digital signature, key encipherment and client auth. It is used in the sample
  environment only.
\<close>

definition sample_isNodeClientCert ::
  "CertificateSigningRequest \<Rightarrow> string CertificateRequest \<Rightarrow> bool" where
  "sample_isNodeClientCert req csr =
     (HasPrefix (csr_CommonName csr) nodeUserPrefix
      \<and> length (TrimPrefix (csr_CommonName csr) nodeUserPrefix) > 0
      \<and> set (req_Usages req) = {''digital signature'', ''key encipherment'', ''client auth''})"

text \<open>
  A sample environment: URIs are their own strings, the current certificate verifies, and
  the kubelet answers the dial with \<open>serving_cert\<close>.
\<close>

definition sample_externals :: "string externals" where
  "sample_externals =
     \<lparr>ipString = sample_ipString,
      urlString = (\<lambda>u. u),
      x509Verify = (\<lambda>cert options. None),
      tlsDial = (\<lambda>host port pool. Inr serving_cert),
      isNodeClientCert = sample_isNodeClientCert\<rparr>"

section \<open>Properties\<close>

subsection \<open>Auxiliary facts\<close>

lemmas sample_defs =
  T0_def machine_m1_def machine_m1_bound_def machine_m2_def node_n2_def bootstrap_req_def
  bootstrap_csr_def serving_req_def serving_csr_def serving_cert_def kubelet_ca_def no_nodes_def
  one_node_def failing_api_def sample_ipString_def sample_isNodeClientCert_def
  sample_externals_def

lemmas constant_defs =
  nodeUser_def nodeGroup_def nodeUserPrefix_def Second_def Hour_def maxPendingDelta_def
  maxMachineClockSkew_def maxMachineDelta_def nodeBootstrapperUsername_def
  nodeBootstrapperGroups_def NodeHostName_def NodeInternalIP_def NodeExternalIP_def
  NodeInternalDNS_def NodeExternalDNS_def UsageDigitalSignature_def
  UsageKeyEncipherment_def UsageServerAuth_def CertificateApproved_def
  HasPrefix_def TrimPrefix_def

lemma sort_eq_iff_mset:
  fixes a b :: "('a::linorder) list"
  shows "sort a = sort b \<longleftrightarrow> mset a = mset b"
proof
  assume "sort a = sort b"
  then have "mset (sort a) = mset (sort b)" by simp
  then show "mset a = mset b" by simp
next
  assume "mset a = mset b"
  then show "sort a = sort b"
    by (simp add: properties_for_sort)
qed

lemma equalStrings_iff_mset: "equalStrings a b \<longleftrightarrow> mset a = mset b"
  by (simp add: equalStrings_def sort_eq_iff_mset)

lemma mset_map_eq_length: "mset (map f a) = mset (map g b) \<Longrightarrow> length a = length b"
proof -
  assume "mset (map f a) = mset (map g b)"
  then have "size (mset (map f a)) = size (mset (map g b))" by simp
  then show ?thesis by simp
qed

lemma equalURLs_iff_mset: "equalURLs str a b \<longleftrightarrow> mset (map str a) = mset (map str b)"
  unfolding equalURLs_def using mset_map_eq_length[of str a str b]
  by (auto simp: sort_eq_iff_mset)

lemma equalIPAddresses_iff_mset:
  "equalIPAddresses str a b \<longleftrightarrow> mset (map str a) = mset (map str b)"
  unfolding equalIPAddresses_def using mset_map_eq_length[of str a str b]
  by (auto simp: sort_eq_iff_mset)

lemma countPending_filter:
  "countPending start finish csrs pending =
     pending + int (length (filter (\<lambda>csr. inTimeSpan start finish (req_CreationTimestamp csr)
                                          \<and> \<not> isApproved csr) csrs))"
  by (induction csrs arbitrary: pending) auto

lemma conditionsApproved_iff:
  "conditionsApproved conds \<longleftrightarrow> CertificateApproved \<in> cond_Type ` set conds"
  by (induction conds) auto

lemma authorizeNodeClientCSR_results:
  "authorizeNodeClientCSR c machines req csr = (approved, err) \<Longrightarrow> err \<noteq> None \<Longrightarrow> \<not> approved"
  unfolding authorizeNodeClientCSR_def Let_def
  by (auto split: if_splits option.splits)

lemma serving_validate:
  "validateCSRContents serving_req (serving_csr ip) = (''ip-10-0-1-6'', None)"
  by (simp add: validateCSRContents_def sample_defs constant_defs)

lemma serving_not_client:
  "\<not> isNodeClientCert sample_externals serving_req (serving_csr ip)"
proof -
  have a: "''server auth'' \<in> set (req_Usages serving_req)"
    by (simp add: serving_req_def)
  have b: "''server auth'' \<notin> {''digital signature'', ''key encipherment'', ''client auth''}"
    by simp
  from a b have "set (req_Usages serving_req)
      \<noteq> {''digital signature'', ''key encipherment'', ''client auth''}"
    by metis
  then show ?thesis
    by (simp add: sample_externals_def sample_isNodeClientCert_def)
qed

lemma serving_no_machine:
  "authorizeCSR sample_externals one_node \<lparr>NodeClientCert_Disabled = False\<rparr> []
      (Some serving_req) (Some (serving_csr [10, 0, 1, 6])) None
    = (False, Some UnableToFindMachine)"
  by (simp add: authorizeCSR_def serving_validate serving_not_client renewalAuthorized_def)

subsection \<open>SAN comparison utilities\<close>

text \<open>
  C9. Each of \<open>equalStrings\<close>, \<open>equalIPAddresses\<close> and \<open>equalURLs\<close> is symmetric and
  reflexive, gives the same answer when either argument is replaced by a permutation of
  itself (a list with the same multiset of elements), and never reports two inputs of
  unequal length equal. The \<^verbatim>\<open>String\<close> methods \<open>istr\<close> and \<open>ustr\<close> are arbitrary.
\<close>

theorem san_utilities_equivalence:
  "(equalStrings a b = equalStrings b a)
   \<and> equalStrings a a
   \<and> (mset a' = mset a \<and> mset b' = mset b \<longrightarrow> equalStrings a' b' = equalStrings a b)
   \<and> (length a \<noteq> length b \<longrightarrow> \<not> equalStrings a b)
   \<and> (equalIPAddresses istr p q = equalIPAddresses istr q p)
   \<and> equalIPAddresses istr p p
   \<and> (mset p' = mset p \<and> mset q' = mset q
        \<longrightarrow> equalIPAddresses istr p' q' = equalIPAddresses istr p q)
   \<and> (length p \<noteq> length q \<longrightarrow> \<not> equalIPAddresses istr p q)
   \<and> (equalURLs ustr u v = equalURLs ustr v u)
   \<and> equalURLs ustr u u
   \<and> (mset u' = mset u \<and> mset v' = mset v \<longrightarrow> equalURLs ustr u' v' = equalURLs ustr u v)
   \<and> (length u \<noteq> length v \<longrightarrow> \<not> equalURLs ustr u v)"
proof -
  have s1: "equalStrings a b = equalStrings b a"
    by (auto simp: equalStrings_iff_mset)
  have s2: "equalStrings a a"
    by (simp add: equalStrings_iff_mset)
  have s3: "mset a' = mset a \<and> mset b' = mset b \<longrightarrow> equalStrings a' b' = equalStrings a b"
    by (simp add: equalStrings_iff_mset)
  have s4: "length a \<noteq> length b \<longrightarrow> \<not> equalStrings a b"
    using mset_eq_length[of a b] by (auto simp: equalStrings_iff_mset)
  have i1: "equalIPAddresses istr p q = equalIPAddresses istr q p"
    by (auto simp: equalIPAddresses_iff_mset)
  have i2: "equalIPAddresses istr p p"
    by (simp add: equalIPAddresses_iff_mset)
  have i3: "mset p' = mset p \<and> mset q' = mset q
        \<longrightarrow> equalIPAddresses istr p' q' = equalIPAddresses istr p q"
  proof
    assume h: "mset p' = mset p \<and> mset q' = mset q"
    have "mset (map istr p') = image_mset istr (mset p')" by simp
    moreover have "mset (map istr q') = image_mset istr (mset q')" by simp
    ultimately show "equalIPAddresses istr p' q' = equalIPAddresses istr p q"
      using h by (simp add: equalIPAddresses_iff_mset)
  qed
  have i4: "length p \<noteq> length q \<longrightarrow> \<not> equalIPAddresses istr p q"
    by (simp add: equalIPAddresses_def)
  have u1: "equalURLs ustr u v = equalURLs ustr v u"
    by (auto simp: equalURLs_iff_mset)
  have u2: "equalURLs ustr u u"
    by (simp add: equalURLs_iff_mset)
  have u3: "mset u' = mset u \<and> mset v' = mset v \<longrightarrow> equalURLs ustr u' v' = equalURLs ustr u v"
  proof
    assume h: "mset u' = mset u \<and> mset v' = mset v"
    have "mset (map ustr u') = image_mset ustr (mset u')" by simp
    moreover have "mset (map ustr v') = image_mset ustr (mset v')" by simp
    ultimately show "equalURLs ustr u' v' = equalURLs ustr u v"
      using h by (simp add: equalURLs_iff_mset)
  qed
  have u4: "length u \<noteq> length v \<longrightarrow> \<not> equalURLs ustr u v"
    by (simp add: equalURLs_def)
  from s1 s2 s3 s4 i1 i2 i3 i4 u1 u2 u3 u4 show ?thesis by blast
qed

theorem san_utilities_equivalence_witness:
  "mset [''a.example'', ''b.example''] = mset [''b.example'', ''a.example'']
   \<and> equalStrings [''a.example'', ''b.example''] [''b.example'', ''a.example'']
   \<and> length [''a.example'', ''a.example''] \<noteq> length [''a.example'']
   \<and> \<not> equalStrings [''a.example'', ''a.example''] [''a.example'']
   \<and> mset [[10, 0, 1, 6], [10, 0, 2, 2]] = mset [[10, 0, 2, 2], [10, 0, 1, 6 :: 8 word]]
   \<and> equalIPAddresses sample_ipString [[10, 0, 1, 6], [10, 0, 2, 2]]
        [[10, 0, 2, 2], [10, 0, 1, 6]]
   \<and> length [[10, 0, 1, 6 :: 8 word]] \<noteq> length ([] :: IP list)
   \<and> \<not> equalIPAddresses sample_ipString [[10, 0, 1, 6]] []
   \<and> mset [''spiffe://a'', ''spiffe://b''] = mset [''spiffe://b'', ''spiffe://a'']
   \<and> equalURLs (\<lambda>u. u) [''spiffe://a'', ''spiffe://b''] [''spiffe://b'', ''spiffe://a'']
   \<and> length [''spiffe://a''] \<noteq> length ([] :: string list)
   \<and> \<not> equalURLs (\<lambda>u. u) [''spiffe://a''] []"
proof -
  note perm = san_utilities_equivalence
    [of "[''b.example'', ''a.example'']" "[''b.example'', ''a.example'']"
        "[''a.example'', ''b.example'']" "[''b.example'', ''a.example'']"
        sample_ipString "[[10, 0, 2, 2], [10, 0, 1, 6]]" "[[10, 0, 2, 2], [10, 0, 1, 6]]"
        "[[10, 0, 1, 6], [10, 0, 2, 2]]" "[[10, 0, 2, 2], [10, 0, 1, 6]]"
        "\<lambda>u. u" "[''spiffe://b'', ''spiffe://a'']" "[''spiffe://b'', ''spiffe://a'']"
        "[''spiffe://a'', ''spiffe://b'']" "[''spiffe://b'', ''spiffe://a'']"]
  note len = san_utilities_equivalence
    [of "[''a.example'', ''a.example'']" "[''a.example'']" _ _
        sample_ipString "[[10, 0, 1, 6]]" "[]" _ _
        "\<lambda>u. u" "[''spiffe://a'']" "[]"]
  have m1: "mset [''a.example'', ''b.example''] = mset [''b.example'', ''a.example'']"
    by simp
  have m2: "mset [[10, 0, 1, 6], [10, 0, 2, 2]] = mset [[10, 0, 2, 2], [10, 0, 1, 6 :: 8 word]]"
    by simp
  have m3: "mset [''spiffe://a'', ''spiffe://b''] = mset [''spiffe://b'', ''spiffe://a'']"
    by simp
  have e1: "equalStrings [''a.example'', ''b.example''] [''b.example'', ''a.example'']"
    using perm m1 by blast
  have e2: "equalIPAddresses sample_ipString [[10, 0, 1, 6], [10, 0, 2, 2]]
        [[10, 0, 2, 2], [10, 0, 1, 6]]"
    using perm m2 by blast
  have e3: "equalURLs (\<lambda>u. u) [''spiffe://a'', ''spiffe://b''] [''spiffe://b'', ''spiffe://a'']"
    using perm m3 by blast
  have l1: "length [''a.example'', ''a.example''] \<noteq> length [''a.example'']"
    by simp
  have l2: "length [[10, 0, 1, 6 :: 8 word]] \<noteq> length ([] :: IP list)"
    by simp
  have l3: "length [''spiffe://a''] \<noteq> length ([] :: string list)"
    by simp
  have n1: "\<not> equalStrings [''a.example'', ''a.example''] [''a.example'']"
    using len l1 by blast
  have n2: "\<not> equalIPAddresses sample_ipString [[10, 0, 1, 6]] []"
    using len l2 by blast
  have n3: "\<not> equalURLs (\<lambda>u. u) [''spiffe://a''] []"
    using len l3 by blast
  from m1 m2 m3 e1 e2 e3 n1 n2 n3 show ?thesis by simp
qed

subsection \<open>Backlog count\<close>

text \<open>
  C7. \<open>recentlyPendingCSRs\<close> is the number of CSRs of the input list whose creation
  timestamp lies strictly between the clock reading minus one hour and the clock reading
  plus ten seconds (in nanoseconds), and none of whose status conditions has the type
  \<open>Approved\<close>.
\<close>

theorem recentlyPendingCSRs_counts:
  "recentlyPendingCSRs currentTime csrs =
     int (length (filter
       (\<lambda>csr. currentTime - 3600000000000 < req_CreationTimestamp csr
             \<and> req_CreationTimestamp csr < currentTime + 10000000000
             \<and> ''Approved'' \<notin> cond_Type ` set (req_Conditions csr)) csrs))"
proof -
  have "(\<lambda>csr. inTimeSpan (currentTime + (- maxPendingDelta)) (currentTime + maxMachineClockSkew)
                 (req_CreationTimestamp csr) \<and> \<not> isApproved csr)
      = (\<lambda>csr. currentTime - 3600000000000 < req_CreationTimestamp csr
             \<and> req_CreationTimestamp csr < currentTime + 10000000000
             \<and> ''Approved'' \<notin> cond_Type ` set (req_Conditions csr))"
    by (simp add: inTimeSpan_def isApproved_def conditionsApproved_iff CertificateApproved_def
        maxPendingDelta_def maxMachineClockSkew_def Hour_def Second_def)
  then show ?thesis
    by (simp add: recentlyPendingCSRs_def countPending_filter)
qed

subsection \<open>The dispatcher\<close>

text \<open>
  C10. If the CSR object or the parsed request handed to \<open>authorizeCSR\<close> is nil, the
  result is \<open>(False, None)\<close>, whatever the other arguments are: nothing of the nil
  argument is read.
\<close>

theorem authorizeCSR_nil_request:
  "req = None \<or> csr = None \<Longrightarrow> authorizeCSR ext c config machines req csr ca = (False, None)"
  by (auto simp: authorizeCSR_def)

theorem authorizeCSR_nil_request_witness:
  "authorizeCSR sample_externals one_node \<lparr>NodeClientCert_Disabled = False\<rparr> [machine_m2]
      None (Some (serving_csr [10, 0, 1, 6])) None = (False, None)
   \<and> authorizeCSR sample_externals one_node \<lparr>NodeClientCert_Disabled = False\<rparr> [machine_m2]
      (Some serving_req) None None = (False, None)"
  using authorizeCSR_nil_request
          [of None "Some (serving_csr [10, 0, 1, 6])" sample_externals one_node
              "\<lparr>NodeClientCert_Disabled = False\<rparr>" "[machine_m2]" None]
        authorizeCSR_nil_request
          [of "Some serving_req" None sample_externals one_node
              "\<lparr>NodeClientCert_Disabled = False\<rparr>" "[machine_m2]" None]
  by simp

text \<open>
  C8. Whatever its inputs, \<open>authorizeCSR\<close> returns a non-nil error only together with
  \<open>approved = False\<close>: it never returns \<open>(True, Some err)\<close>, so an approval is always
  \<open>(True, None)\<close>.
\<close>

theorem authorizeCSR_error_never_approves:
  "authorizeCSR ext c config machines req csr ca = (approved, err) \<Longrightarrow> err \<noteq> None
     \<Longrightarrow> \<not> approved"
  unfolding authorizeCSR_def
  by (auto split: if_splits option.splits prod.splits dest: authorizeNodeClientCSR_results)

theorem authorizeCSR_error_never_approves_witness:
  "authorizeCSR sample_externals one_node \<lparr>NodeClientCert_Disabled = False\<rparr> []
      (Some serving_req) (Some (serving_csr [10, 0, 1, 6])) None
    = (False, Some UnableToFindMachine)
   \<and> Some UnableToFindMachine \<noteq> None \<and> \<not> False"
  using authorizeCSR_error_never_approves [OF serving_no_machine] serving_no_machine
  by simp

subsection \<open>Bootstrap authorizer\<close>

lemma hasInternalDNS_iff:
  "hasInternalDNS nodeName addresses \<longleftrightarrow>
     (\<exists>a \<in> set addresses. addr_Type a = ''InternalDNS'' \<and> addr_Address a = nodeName)"
  by (induction addresses) (auto simp: NodeInternalDNS_def)

lemma findInternalDNS_none:
  "(\<forall>m \<in> set machines. \<not> hasInternalDNS nodeName (m_Addresses m))
     \<Longrightarrow> findMatchingMachineFromInternalDNS nodeName machines = None"
  by (induction machines) auto

lemma findInternalDNS_first:
  "(\<forall>m \<in> set earlier. \<not> hasInternalDNS nodeName (m_Addresses m))
     \<Longrightarrow> hasInternalDNS nodeName (m_Addresses machine)
     \<Longrightarrow> findMatchingMachineFromInternalDNS nodeName (earlier @ machine # later) = Some machine"
  by (induction earlier) auto

lemma bootstrap_after_node_check:
  assumes "req_Username req = nodeBootstrapperUsername"
    and "set (req_Groups req) = nodeBootstrapperGroups"
    and "nodeName = TrimPrefix (csr_CommonName csr) ''system:node:''"
    and "nodeName \<noteq> ''''"
    and "c nodeName = Inl err" and "IsNotFound (Some err)"
  shows "authorizeNodeClientCSR c machines req csr =
     (case findMatchingMachineFromInternalDNS nodeName machines of
        None \<Rightarrow> (False, Some (FailedToFindMachine nodeName))
      | Some m \<Rightarrow>
          (m_NodeRef m = None
           \<and> m_CreationTimestamp m - 10 * Second < req_CreationTimestamp req
           \<and> req_CreationTimestamp req < m_CreationTimestamp m + 2 * Hour, None))"
proof -
  have boot: "isReqFromNodeBootstrapper req"
    using assms(1,2) by (simp add: isReqFromNodeBootstrapper_def)
  have name: "TrimPrefix (csr_CommonName csr) nodeUserPrefix = nodeName"
    using assms(3) by (simp add: nodeUserPrefix_def nodeUser_def)
  have get: "Get_err c nodeName = Some err"
    using assms(5) by (simp add: Get_err_def)
  show ?thesis
    unfolding authorizeNodeClientCSR_def Let_def name
    using boot assms(4,6) get
    by (auto simp: inTimeSpan_def maxMachineClockSkew_def maxMachineDelta_def
             split: option.splits)
qed

lemmas bootstrap_eval =
  authorizeNodeClientCSR_def isReqFromNodeBootstrapper_def Get_err_def inTimeSpan_def
  sample_defs constant_defs

text \<open>
  C1, as the code has it. For a request from the node bootstrapper (exact username, exact
  group set) whose subject common name gives a non-empty node name once the prefix
  \<open>system:node:\<close> is trimmed, when the Node lookup answers "not found", the first Machine
  of the snapshot that has an InternalDNS address equal to the name has no NodeRef, and
  the creation timestamp of the CSR lies strictly inside the open interval from the
  Machine's creation minus ten seconds to the Machine's creation plus two hours,
  \<open>authorizeNodeClientCSR\<close> returns \<open>(True, None)\<close>.
\<close>

theorem bootstrap_approval:
  assumes "req_Username req = nodeBootstrapperUsername"
    and "set (req_Groups req) = nodeBootstrapperGroups"
    and "nodeName = TrimPrefix (csr_CommonName csr) ''system:node:''"
    and "nodeName \<noteq> ''''"
    and "c nodeName = Inl (StatusNotFound msg)"
    and "machines = earlier @ machine # later"
    and "\<forall>m \<in> set earlier. \<forall>a \<in> set (m_Addresses m).
           \<not> (addr_Type a = ''InternalDNS'' \<and> addr_Address a = nodeName)"
    and "\<exists>a \<in> set (m_Addresses machine).
           addr_Type a = ''InternalDNS'' \<and> addr_Address a = nodeName"
    and "m_NodeRef machine = None"
    and "m_CreationTimestamp machine - 10 * Second < req_CreationTimestamp req"
    and "req_CreationTimestamp req < m_CreationTimestamp machine + 2 * Hour"
  shows "authorizeNodeClientCSR c machines req csr = (True, None)"
proof -
  have "\<forall>m \<in> set earlier. \<not> hasInternalDNS nodeName (m_Addresses m)"
    using assms(7) by (simp add: hasInternalDNS_iff)
  moreover have "hasInternalDNS nodeName (m_Addresses machine)"
    using assms(8) by (simp add: hasInternalDNS_iff)
  ultimately have found: "findMatchingMachineFromInternalDNS nodeName machines = Some machine"
    unfolding assms(6) by (rule findInternalDNS_first)
  have nf: "IsNotFound (Some (StatusNotFound msg))" by simp
  show ?thesis
    using bootstrap_after_node_check
            [where c = c and nodeName = nodeName and err = "StatusNotFound msg"
               and machines = machines and req = req and csr = csr,
             OF assms(1-5) nf]
          found assms(9-11)
    by simp
qed

theorem bootstrap_approval_witness:
  "authorizeNodeClientCSR no_nodes [machine_m2, machine_m1]
     (bootstrap_req (T0 + 300 * Second)) bootstrap_csr = (True, None)"
proof (rule bootstrap_approval [where nodeName = "''ip-10-0-1-5''" and msg = "''ip-10-0-1-5''"
      and earlier = "[machine_m2]" and machine = machine_m1 and later = "[]"])
  show "req_Username (bootstrap_req (T0 + 300 * Second)) = nodeBootstrapperUsername"
    by (simp add: bootstrap_req_def nodeBootstrapperUsername_def)
  show "set (req_Groups (bootstrap_req (T0 + 300 * Second))) = nodeBootstrapperGroups"
    by (simp add: bootstrap_req_def nodeBootstrapperGroups_def)
  show "''ip-10-0-1-5'' = TrimPrefix (csr_CommonName bootstrap_csr) ''system:node:''"
    by (simp add: bootstrap_csr_def TrimPrefix_def HasPrefix_def)
  show "''ip-10-0-1-5'' \<noteq> ''''" by simp
  show "no_nodes ''ip-10-0-1-5'' = Inl (StatusNotFound ''ip-10-0-1-5'')"
    by (simp add: no_nodes_def)
  show "[machine_m2, machine_m1] = [machine_m2] @ machine_m1 # []" by simp
  show "\<forall>m \<in> set [machine_m2]. \<forall>a \<in> set (m_Addresses m).
           \<not> (addr_Type a = ''InternalDNS'' \<and> addr_Address a = ''ip-10-0-1-5'')"
    by (simp add: machine_m2_def)
  show "\<exists>a \<in> set (m_Addresses machine_m1).
           addr_Type a = ''InternalDNS'' \<and> addr_Address a = ''ip-10-0-1-5''"
    by (simp add: machine_m1_def)
  show "m_NodeRef machine_m1 = None" by (simp add: machine_m1_def)
  show "m_CreationTimestamp machine_m1 - 10 * Second
          < req_CreationTimestamp (bootstrap_req (T0 + 300 * Second))"
    by (simp add: machine_m1_def bootstrap_req_def Second_def)
  show "req_CreationTimestamp (bootstrap_req (T0 + 300 * Second))
          < m_CreationTimestamp machine_m1 + 2 * Hour"
    by (simp add: machine_m1_def bootstrap_req_def Second_def Hour_def)
qed

text \<open>
  C1 as stated fails. With the closed interval it fails at both endpoints: a CSR created
  exactly two hours after the Machine, or exactly ten seconds before it, is declined,
  since \<^verbatim>\<open>inTimeSpan\<close> compares with \<^verbatim>\<open>After\<close> and \<^verbatim>\<open>Before\<close>. With
  "some Machine" it fails when an earlier Machine of the snapshot carries the same
  InternalDNS name and is already bound: the lookup stops at the first match.
\<close>

theorem bootstrap_closed_window_counterexample:
  "isReqFromNodeBootstrapper (bootstrap_req (T0 + 2 * Hour))
   \<and> TrimPrefix (csr_CommonName bootstrap_csr) nodeUserPrefix = ''ip-10-0-1-5''
   \<and> no_nodes ''ip-10-0-1-5'' = Inl (StatusNotFound ''ip-10-0-1-5'')
   \<and> hasInternalDNS ''ip-10-0-1-5'' (m_Addresses machine_m1)
   \<and> m_NodeRef machine_m1 = None
   \<and> m_CreationTimestamp machine_m1 - 10 * Second
        \<le> req_CreationTimestamp (bootstrap_req (T0 + 2 * Hour))
   \<and> req_CreationTimestamp (bootstrap_req (T0 + 2 * Hour))
        \<le> m_CreationTimestamp machine_m1 + 2 * Hour
   \<and> authorizeNodeClientCSR no_nodes [machine_m1] (bootstrap_req (T0 + 2 * Hour))
        bootstrap_csr = (False, None)
   \<and> authorizeNodeClientCSR no_nodes [machine_m1] (bootstrap_req (T0 - 10 * Second))
        bootstrap_csr = (False, None)
   \<and> machine_m1 \<in> set [machine_m1_bound, machine_m1]
   \<and> authorizeNodeClientCSR no_nodes [machine_m1_bound, machine_m1]
        (bootstrap_req (T0 + 300 * Second)) bootstrap_csr = (False, None)"
  by (simp add: bootstrap_eval)

text \<open>
  C4 as stated fails: with no Machine carrying the node name as an InternalDNS address the
  result carries an error, so it is a requeue and not \<open>(False, None)\<close>.
\<close>

theorem bootstrap_no_machine_counterexample:
  "isReqFromNodeBootstrapper (bootstrap_req T0)
   \<and> TrimPrefix (csr_CommonName bootstrap_csr) nodeUserPrefix = ''ip-10-0-1-5''
   \<and> no_nodes ''ip-10-0-1-5'' = Inl (StatusNotFound ''ip-10-0-1-5'')
   \<and> \<not> hasInternalDNS ''ip-10-0-1-5'' (m_Addresses machine_m2)
   \<and> authorizeNodeClientCSR no_nodes [machine_m2] (bootstrap_req T0) bootstrap_csr
        = (False, Some (FailedToFindMachine ''ip-10-0-1-5''))
   \<and> authorizeNodeClientCSR no_nodes [machine_m2] (bootstrap_req T0) bootstrap_csr
        \<noteq> (False, None)"
  by (simp add: bootstrap_eval)

text \<open>
  C4, as the code has it. For a request from the node bootstrapper with a non-empty
  extracted node name and no Node of that name, when no Machine of the snapshot has an
  InternalDNS address equal to the name, \<open>authorizeNodeClientCSR\<close> returns \<open>False\<close>
  together with the error "failed to find machine for node": a requeue.
\<close>

theorem bootstrap_no_machine_requeues:
  assumes "req_Username req = nodeBootstrapperUsername"
    and "set (req_Groups req) = nodeBootstrapperGroups"
    and "nodeName = TrimPrefix (csr_CommonName csr) ''system:node:''"
    and "nodeName \<noteq> ''''"
    and "c nodeName = Inl (StatusNotFound msg)"
    and "\<forall>m \<in> set machines. \<forall>a \<in> set (m_Addresses m).
           \<not> (addr_Type a = ''InternalDNS'' \<and> addr_Address a = nodeName)"
  shows "authorizeNodeClientCSR c machines req csr
           = (False, Some (FailedToFindMachine nodeName))"
proof -
  have "\<forall>m \<in> set machines. \<not> hasInternalDNS nodeName (m_Addresses m)"
    using assms(6) by (simp add: hasInternalDNS_iff)
  then have none: "findMatchingMachineFromInternalDNS nodeName machines = None"
    by (rule findInternalDNS_none)
  have nf: "IsNotFound (Some (StatusNotFound msg))" by simp
  show ?thesis
    using bootstrap_after_node_check
            [where c = c and nodeName = nodeName and err = "StatusNotFound msg"
               and machines = machines and req = req and csr = csr,
             OF assms(1-5) nf]
          none
    by simp
qed

theorem bootstrap_no_machine_requeues_witness:
  "authorizeNodeClientCSR no_nodes [machine_m2] (bootstrap_req T0) bootstrap_csr
     = (False, Some (FailedToFindMachine ''ip-10-0-1-5''))"
proof (rule bootstrap_no_machine_requeues [where msg = "''ip-10-0-1-5''"])
  show "req_Username (bootstrap_req T0) = nodeBootstrapperUsername"
    by (simp add: bootstrap_req_def nodeBootstrapperUsername_def)
  show "set (req_Groups (bootstrap_req T0)) = nodeBootstrapperGroups"
    by (simp add: bootstrap_req_def nodeBootstrapperGroups_def)
  show "''ip-10-0-1-5'' = TrimPrefix (csr_CommonName bootstrap_csr) ''system:node:''"
    by (simp add: bootstrap_csr_def TrimPrefix_def HasPrefix_def)
  show "''ip-10-0-1-5'' \<noteq> ''''" by simp
  show "no_nodes ''ip-10-0-1-5'' = Inl (StatusNotFound ''ip-10-0-1-5'')"
    by (simp add: no_nodes_def)
  show "\<forall>m \<in> set [machine_m2]. \<forall>a \<in> set (m_Addresses m).
           \<not> (addr_Type a = ''InternalDNS'' \<and> addr_Address a = ''ip-10-0-1-5'')"
    by (simp add: machine_m2_def)
qed

text \<open>
  C6. In the bootstrap flow, once the requester is the node bootstrapper and the node name
  is non-empty: if the Node lookup finds the Node, the result is \<open>(False, None)\<close>; if it
  fails with an error that is not "not found", the result is \<open>False\<close> with the error
  "failed get existing nodes"; if it fails with "not found", authorization proceeds, that
  is, the result is the one the Machine checks give (lookup by InternalDNS, NodeRef,
  time window).
\<close>

theorem node_existence_check:
  assumes "req_Username req = nodeBootstrapperUsername"
    and "set (req_Groups req) = nodeBootstrapperGroups"
    and "nodeName = TrimPrefix (csr_CommonName csr) ''system:node:''"
    and "nodeName \<noteq> ''''"
  shows "(\<forall>node. c nodeName = Inr node
            \<longrightarrow> authorizeNodeClientCSR c machines req csr = (False, None))
       \<and> (\<forall>err. c nodeName = Inl err \<and> \<not> IsNotFound (Some err)
            \<longrightarrow> authorizeNodeClientCSR c machines req csr
                  = (False, Some (FailedGetNodes nodeName)))
       \<and> (\<forall>err. c nodeName = Inl err \<and> IsNotFound (Some err)
            \<longrightarrow> authorizeNodeClientCSR c machines req csr =
                 (case findMatchingMachineFromInternalDNS nodeName machines of
                    None \<Rightarrow> (False, Some (FailedToFindMachine nodeName))
                  | Some m \<Rightarrow>
                      (m_NodeRef m = None
                       \<and> m_CreationTimestamp m - 10 * Second < req_CreationTimestamp req
                       \<and> req_CreationTimestamp req < m_CreationTimestamp m + 2 * Hour,
                       None)))"
proof -
  have boot: "isReqFromNodeBootstrapper req"
    using assms(1,2) by (simp add: isReqFromNodeBootstrapper_def)
  have name: "TrimPrefix (csr_CommonName csr) nodeUserPrefix = nodeName"
    using assms(3) by (simp add: nodeUserPrefix_def nodeUser_def)
  have exists: "authorizeNodeClientCSR c machines req csr = (False, None)"
    if "c nodeName = Inr node" for node
    unfolding authorizeNodeClientCSR_def Let_def name
    using boot assms(4) that by (simp add: Get_err_def)
  have failed: "authorizeNodeClientCSR c machines req csr
                  = (False, Some (FailedGetNodes nodeName))"
    if "c nodeName = Inl err" and "\<not> IsNotFound (Some err)" for err
    unfolding authorizeNodeClientCSR_def Let_def name
    using boot assms(4) that by (simp add: Get_err_def)
  have proceeds: "authorizeNodeClientCSR c machines req csr =
                 (case findMatchingMachineFromInternalDNS nodeName machines of
                    None \<Rightarrow> (False, Some (FailedToFindMachine nodeName))
                  | Some m \<Rightarrow>
                      (m_NodeRef m = None
                       \<and> m_CreationTimestamp m - 10 * Second < req_CreationTimestamp req
                       \<and> req_CreationTimestamp req < m_CreationTimestamp m + 2 * Hour,
                       None))"
    if "c nodeName = Inl err" and "IsNotFound (Some err)" for err
    using bootstrap_after_node_check
            [where c = c and nodeName = nodeName and err = err
               and machines = machines and req = req and csr = csr,
             OF assms(1-4) that] .
  from exists failed proceeds show ?thesis by blast
qed

theorem node_existence_check_witness:
  "authorizeNodeClientCSR one_node [machine_m1] (bootstrap_req (T0 + 300 * Second))
     (bootstrap_csr\<lparr>csr_CommonName := ''system:node:ip-10-0-1-6''\<rparr>) = (False, None)
   \<and> authorizeNodeClientCSR failing_api [machine_m1] (bootstrap_req (T0 + 300 * Second))
       bootstrap_csr = (False, Some (FailedGetNodes ''ip-10-0-1-5''))
   \<and> authorizeNodeClientCSR no_nodes [machine_m1] (bootstrap_req (T0 + 300 * Second))
       bootstrap_csr = (True, None)"
proof -
  have u: "req_Username (bootstrap_req (T0 + 300 * Second)) = nodeBootstrapperUsername"
    by (simp add: bootstrap_req_def nodeBootstrapperUsername_def)
  have g: "set (req_Groups (bootstrap_req (T0 + 300 * Second))) = nodeBootstrapperGroups"
    by (simp add: bootstrap_req_def nodeBootstrapperGroups_def)
  have n5: "''ip-10-0-1-5'' = TrimPrefix (csr_CommonName bootstrap_csr) ''system:node:''"
    by (simp add: bootstrap_csr_def TrimPrefix_def HasPrefix_def)
  have n6: "''ip-10-0-1-6'' = TrimPrefix
       (csr_CommonName (bootstrap_csr\<lparr>csr_CommonName := ''system:node:ip-10-0-1-6''\<rparr>))
       ''system:node:''"
    by (simp add: bootstrap_csr_def TrimPrefix_def HasPrefix_def)
  have ne5: "''ip-10-0-1-5'' \<noteq> ''''" and ne6: "''ip-10-0-1-6'' \<noteq> ''''" by simp_all
  have found: "one_node ''ip-10-0-1-6'' = Inr node_n2"
    by (simp add: one_node_def)
  have broken: "failing_api ''ip-10-0-1-5'' = Inl (ExternalError ''connection refused'')
      \<and> \<not> IsNotFound (Some (ExternalError ''connection refused''))"
    by (simp add: failing_api_def)
  have absent: "no_nodes ''ip-10-0-1-5'' = Inl (StatusNotFound ''ip-10-0-1-5'')
      \<and> IsNotFound (Some (StatusNotFound ''ip-10-0-1-5''))"
    by (simp add: no_nodes_def)
  have m: "findMatchingMachineFromInternalDNS ''ip-10-0-1-5'' [machine_m1] = Some machine_m1"
    by (simp add: machine_m1_def NodeInternalDNS_def)
  have w: "m_NodeRef machine_m1 = None
      \<and> m_CreationTimestamp machine_m1 - 10 * Second
           < req_CreationTimestamp (bootstrap_req (T0 + 300 * Second))
      \<and> req_CreationTimestamp (bootstrap_req (T0 + 300 * Second))
           < m_CreationTimestamp machine_m1 + 2 * Hour"
    by (simp add: machine_m1_def bootstrap_req_def Second_def Hour_def)
  have a: "authorizeNodeClientCSR one_node [machine_m1] (bootstrap_req (T0 + 300 * Second))
     (bootstrap_csr\<lparr>csr_CommonName := ''system:node:ip-10-0-1-6''\<rparr>) = (False, None)"
    using node_existence_check [where c = one_node and machines = "[machine_m1]", OF u g n6 ne6]
          found by blast
  have b: "authorizeNodeClientCSR failing_api [machine_m1] (bootstrap_req (T0 + 300 * Second))
       bootstrap_csr = (False, Some (FailedGetNodes ''ip-10-0-1-5''))"
    using node_existence_check [where c = failing_api and machines = "[machine_m1]",
            OF u g n5 ne5] broken by blast
  have "authorizeNodeClientCSR no_nodes [machine_m1] (bootstrap_req (T0 + 300 * Second))
       bootstrap_csr =
         (case findMatchingMachineFromInternalDNS ''ip-10-0-1-5'' [machine_m1] of
            None \<Rightarrow> (False, Some (FailedToFindMachine ''ip-10-0-1-5''))
          | Some m \<Rightarrow>
              (m_NodeRef m = None
               \<and> m_CreationTimestamp m - 10 * Second
                    < req_CreationTimestamp (bootstrap_req (T0 + 300 * Second))
               \<and> req_CreationTimestamp (bootstrap_req (T0 + 300 * Second))
                    < m_CreationTimestamp m + 2 * Hour,
               None))"
    using node_existence_check [where c = no_nodes and machines = "[machine_m1]",
            OF u g n5 ne5] absent by blast
  then have c: "authorizeNodeClientCSR no_nodes [machine_m1]
       (bootstrap_req (T0 + 300 * Second)) bootstrap_csr = (True, None)"
    by (simp only: m option.case w simp_thms)
  from a b c show ?thesis by simp
qed

subsection \<open>Serving-renewal authorizer\<close>

text \<open>
  C3. \<open>authorizeServingRenewal\<close> returns nil exactly when the request, the current
  certificate and the roots are present, the certificate verifies under the options, its
  subject common name is \<open>system:node:\<close> followed by the node name, the common name of
  the request equals it, and the DNS, email, IP and URI SANs of the request and of the
  certificate are equal as order-insensitive collections of canonical strings: the same
  strings, each as often, in any order (IPs and URIs through their \<^verbatim>\<open>String\<close>
  methods). In particular, a nil return implies that the four SAN sets are equal.
\<close>

theorem authorizeServingRenewal_nil_iff:
  "(authorizeServingRenewal ext nodeName csr currentCert options = None \<longleftrightarrow>
     (\<exists>x cert roots. csr = Some x \<and> currentCert = Some cert \<and> Roots options = Some roots
        \<and> x509Verify ext cert options = None
        \<and> cert_CommonName cert = ''system:node:'' @ nodeName
        \<and> csr_CommonName x = cert_CommonName cert
        \<and> mset (csr_DNSNames x) = mset (cert_DNSNames cert)
        \<and> mset (csr_EmailAddresses x) = mset (cert_EmailAddresses cert)
        \<and> mset (map (ipString ext) (csr_IPAddresses x))
            = mset (map (ipString ext) (cert_IPAddresses cert))
        \<and> mset (map (urlString ext) (csr_URIs x))
            = mset (map (urlString ext) (cert_URIs cert))))
   \<and> (authorizeServingRenewal ext nodeName csr currentCert options = None \<longrightarrow>
     (\<exists>x cert. csr = Some x \<and> currentCert = Some cert
        \<and> set (csr_DNSNames x) = set (cert_DNSNames cert)
        \<and> set (csr_EmailAddresses x) = set (cert_EmailAddresses cert)
        \<and> ipString ext ` set (csr_IPAddresses x) = ipString ext ` set (cert_IPAddresses cert)
        \<and> urlString ext ` set (csr_URIs x) = urlString ext ` set (cert_URIs cert)))"
proof -
  let ?P = "\<exists>x cert roots. csr = Some x \<and> currentCert = Some cert \<and> Roots options = Some roots
        \<and> x509Verify ext cert options = None
        \<and> cert_CommonName cert = ''system:node:'' @ nodeName
        \<and> csr_CommonName x = cert_CommonName cert
        \<and> mset (csr_DNSNames x) = mset (cert_DNSNames cert)
        \<and> mset (csr_EmailAddresses x) = mset (cert_EmailAddresses cert)
        \<and> mset (map (ipString ext) (csr_IPAddresses x))
            = mset (map (ipString ext) (cert_IPAddresses cert))
        \<and> mset (map (urlString ext) (csr_URIs x))
            = mset (map (urlString ext) (cert_URIs cert))"
  have iff: "authorizeServingRenewal ext nodeName csr currentCert options = None \<longleftrightarrow> ?P"
    unfolding authorizeServingRenewal_def Let_def
    by (cases csr; cases currentCert; cases "Roots options")
       (auto simp: equalStrings_iff_mset equalIPAddresses_iff_mset equalURLs_iff_mset
                   nodeUser_def split: option.splits)
  have sets: "\<exists>x cert. csr = Some x \<and> currentCert = Some cert
        \<and> set (csr_DNSNames x) = set (cert_DNSNames cert)
        \<and> set (csr_EmailAddresses x) = set (cert_EmailAddresses cert)
        \<and> ipString ext ` set (csr_IPAddresses x) = ipString ext ` set (cert_IPAddresses cert)
        \<and> urlString ext ` set (csr_URIs x) = urlString ext ` set (cert_URIs cert)"
    if ?P
  proof -
    from that obtain x cert where xc: "csr = Some x" "currentCert = Some cert"
      and d: "mset (csr_DNSNames x) = mset (cert_DNSNames cert)"
      and e: "mset (csr_EmailAddresses x) = mset (cert_EmailAddresses cert)"
      and i: "mset (map (ipString ext) (csr_IPAddresses x))
            = mset (map (ipString ext) (cert_IPAddresses cert))"
      and u: "mset (map (urlString ext) (csr_URIs x))
            = mset (map (urlString ext) (cert_URIs cert))"
      by blast
    have "set (csr_DNSNames x) = set (cert_DNSNames cert)"
      using d by (rule mset_eq_setD)
    moreover have "set (csr_EmailAddresses x) = set (cert_EmailAddresses cert)"
      using e by (rule mset_eq_setD)
    moreover have "set (map (ipString ext) (csr_IPAddresses x))
        = set (map (ipString ext) (cert_IPAddresses cert))"
      using i by (rule mset_eq_setD)
    moreover have "set (map (urlString ext) (csr_URIs x))
        = set (map (urlString ext) (cert_URIs cert))"
      using u by (rule mset_eq_setD)
    ultimately show ?thesis using xc by simp
  qed
  from iff sets show ?thesis by blast
qed

theorem authorizeServingRenewal_nil_iff_witness:
  "authorizeServingRenewal sample_externals ''ip-10-0-1-6'' (Some (serving_csr [10, 0, 1, 6]))
      (Some serving_cert) \<lparr>Roots = Some [kubelet_ca]\<rparr> = None
   \<and> set (csr_DNSNames (serving_csr [10, 0, 1, 6])) = set (cert_DNSNames serving_cert)
   \<and> authorizeServingRenewal sample_externals ''ip-10-0-1-6'' (Some (serving_csr [10, 0, 2, 2]))
      (Some serving_cert) \<lparr>Roots = Some [kubelet_ca]\<rparr> \<noteq> None"
proof -
  note t1 = authorizeServingRenewal_nil_iff
    [of sample_externals "''ip-10-0-1-6''" "Some (serving_csr [10, 0, 1, 6])"
        "Some serving_cert" "\<lparr>Roots = Some [kubelet_ca]\<rparr>"]
  note t2 = authorizeServingRenewal_nil_iff
    [of sample_externals "''ip-10-0-1-6''" "Some (serving_csr [10, 0, 2, 2])"
        "Some serving_cert" "\<lparr>Roots = Some [kubelet_ca]\<rparr>"]
  have a: "authorizeServingRenewal sample_externals ''ip-10-0-1-6''
      (Some (serving_csr [10, 0, 1, 6])) (Some serving_cert) \<lparr>Roots = Some [kubelet_ca]\<rparr> = None"
    using t1 by (simp add: sample_defs)
  have b: "set (csr_DNSNames (serving_csr [10, 0, 1, 6])) = set (cert_DNSNames serving_cert)"
    by (simp add: sample_defs)
  have c: "authorizeServingRenewal sample_externals ''ip-10-0-1-6''
      (Some (serving_csr [10, 0, 2, 2])) (Some serving_cert) \<lparr>Roots = Some [kubelet_ca]\<rparr> \<noteq> None"
    using t2 by (simp add: sample_defs)
  from a b c show ?thesis by simp
qed

subsection \<open>Serving authorizer\<close>

lemma scanDNSAddresses_found:
  "fst (scanDNSAddresses san addrs (foundSan, attempted)) \<longleftrightarrow>
     foundSan \<or> (\<exists>a \<in> set addrs.
        addr_Type a \<in> {''InternalDNS'', ''ExternalDNS'', ''Hostname''} \<and> addr_Address a = san)"
  by (induction addrs arbitrary: foundSan attempted)
     (auto simp: NodeInternalDNS_def NodeExternalDNS_def NodeHostName_def)

lemma scanIPAddresses_found:
  "fst (scanIPAddresses sanString addrs (foundSan, attempted)) \<longleftrightarrow>
     foundSan \<or> (\<exists>a \<in> set addrs.
        addr_Type a \<in> {''InternalIP'', ''ExternalIP''} \<and> addr_Address a = sanString)"
  by (induction addrs arbitrary: foundSan attempted)
     (auto simp: NodeInternalIP_def NodeExternalIP_def)

lemma checkDNSNames_None_iff:
  "checkDNSNames sans addrs = None \<longleftrightarrow>
     (\<forall>san \<in> set sans. san \<noteq> '''' \<longrightarrow> (\<exists>a \<in> set addrs.
        addr_Type a \<in> {''InternalDNS'', ''ExternalDNS'', ''Hostname''} \<and> addr_Address a = san))"
proof (induction sans)
  case Nil
  show ?case by simp
next
  case (Cons san sans)
  obtain f att where scan: "scanDNSAddresses san addrs (False, []) = (f, att)"
    by (cases "scanDNSAddresses san addrs (False, [])")
  have f: "f \<longleftrightarrow> (\<exists>a \<in> set addrs.
        addr_Type a \<in> {''InternalDNS'', ''ExternalDNS'', ''Hostname''} \<and> addr_Address a = san)"
    using scanDNSAddresses_found [of san addrs False "[]"] scan by simp
  show ?case
    using Cons.IH f by (simp add: scan)
qed

lemma checkIPAddresses_None_iff:
  "checkIPAddresses str sans addrs = None \<longleftrightarrow>
     (\<forall>san \<in> set sans. san \<noteq> [] \<longrightarrow> (\<exists>a \<in> set addrs.
        addr_Type a \<in> {''InternalIP'', ''ExternalIP''} \<and> addr_Address a = str san))"
proof (induction sans)
  case Nil
  show ?case by simp
next
  case (Cons san sans)
  obtain f att where scan: "scanIPAddresses (str san) addrs (False, []) = (f, att)"
    by (cases "scanIPAddresses (str san) addrs (False, [])")
  have f: "f \<longleftrightarrow> (\<exists>a \<in> set addrs.
        addr_Type a \<in> {''InternalIP'', ''ExternalIP''} \<and> addr_Address a = str san)"
    using scanIPAddresses_found [of "str san" addrs False "[]"] scan by simp
  show ?case
    using Cons.IH f by (simp add: scan)
qed

lemma renewalAuthorized_iff:
  "renewalAuthorized ext c nodeAsking csr ca \<longleftrightarrow>
     (\<exists>cert. ca \<noteq> None \<and> getServingCert ext c nodeAsking ca = Inr cert
        \<and> authorizeServingRenewal ext nodeAsking (Some csr) (Some cert) \<lparr>Roots = ca\<rparr> = None)"
  by (auto simp: renewalAuthorized_def split: sum.splits)

lemma findNodeRef_none:
  "(\<forall>m \<in> set machines. m_NodeRef m \<noteq> Some nodeName)
     \<Longrightarrow> findMatchingMachineFromNodeRef nodeName machines = None"
  by (induction machines) auto

lemma authorizeCSR_serving:
  assumes "\<not> isNodeClientCert ext req csr"
    and "validateCSRContents req csr = (nodeAsking, None)"
    and "nodeAsking \<noteq> ''''"
  shows "authorizeCSR ext c config machines (Some req) (Some csr) ca =
     (if renewalAuthorized ext c nodeAsking csr ca then (True, None)
      else
        (case findMatchingMachineFromNodeRef nodeAsking machines of
           None \<Rightarrow> (False, Some UnableToFindMachine)
         | Some targetMachine \<Rightarrow>
             (case checkDNSNames (csr_DNSNames csr) (m_Addresses targetMachine) of
                Some e \<Rightarrow> (False, Some e)
              | None \<Rightarrow>
                  (case checkIPAddresses (ipString ext) (csr_IPAddresses csr)
                          (m_Addresses targetMachine) of
                     Some e \<Rightarrow> (False, Some e)
                   | None \<Rightarrow> (True, None)))))"
  using assms by (simp add: authorizeCSR_def cong: option.case_cong)

text \<open>
  C2. On the fallback path of a serving request (both arguments non-nil, not a client
  request, \<open>validateCSRContents\<close> gives a non-empty asking name and no error, the renewal
  attempt did not approve, and the lookup by NodeRef found the target Machine): if every
  non-empty DNS SAN equals the value of an address of type InternalDNS, ExternalDNS or
  Hostname of the target Machine and the textual form of every non-empty IP SAN equals
  the value of an address of type InternalIP or ExternalIP, \<open>authorizeCSR\<close> returns
  \<open>(True, None)\<close>; if one of these checks fails, it returns \<open>False\<close> with an error.
  Email and URI SANs take no part in the condition.
\<close>

theorem serving_fallback_SAN_checks:
  fixes ext :: "'url externals"
  defines "covered \<equiv> \<lambda>csr targetMachine.
      (\<forall>san \<in> set (csr_DNSNames csr). san \<noteq> '''' \<longrightarrow>
          (\<exists>a \<in> set (m_Addresses targetMachine).
             addr_Type a \<in> {''InternalDNS'', ''ExternalDNS'', ''Hostname''}
             \<and> addr_Address a = san))
      \<and> (\<forall>san \<in> set (csr_IPAddresses csr). san \<noteq> [] \<longrightarrow>
          (\<exists>a \<in> set (m_Addresses targetMachine).
             addr_Type a \<in> {''InternalIP'', ''ExternalIP''}
             \<and> addr_Address a = ipString ext san))"
  assumes "\<not> isNodeClientCert ext req csr"
    and "validateCSRContents req csr = (nodeAsking, None)"
    and "nodeAsking \<noteq> ''''"
    and "\<not> (\<exists>cert. ca \<noteq> None \<and> getServingCert ext c nodeAsking ca = Inr cert
          \<and> authorizeServingRenewal ext nodeAsking (Some csr) (Some cert) \<lparr>Roots = ca\<rparr>
              = None)"
    and "findMatchingMachineFromNodeRef nodeAsking machines = Some targetMachine"
  shows "(covered csr targetMachine
            \<longrightarrow> authorizeCSR ext c config machines (Some req) (Some csr) ca = (True, None))
       \<and> (\<not> covered csr targetMachine
            \<longrightarrow> (\<exists>err. authorizeCSR ext c config machines (Some req) (Some csr) ca
                        = (False, Some err)))"
proof -
  have nr: "\<not> renewalAuthorized ext c nodeAsking csr ca"
    using assms(5) by (simp add: renewalAuthorized_iff)
  have r: "authorizeCSR ext c config machines (Some req) (Some csr) ca =
      (case checkDNSNames (csr_DNSNames csr) (m_Addresses targetMachine) of
         Some e \<Rightarrow> (False, Some e)
       | None \<Rightarrow>
           (case checkIPAddresses (ipString ext) (csr_IPAddresses csr)
                   (m_Addresses targetMachine) of
              Some e \<Rightarrow> (False, Some e)
            | None \<Rightarrow> (True, None)))"
    using authorizeCSR_serving [OF assms(2-4), of c config machines ca] nr assms(6) by simp
  have cov: "covered csr targetMachine \<longleftrightarrow>
      checkDNSNames (csr_DNSNames csr) (m_Addresses targetMachine) = None
      \<and> checkIPAddresses (ipString ext) (csr_IPAddresses csr) (m_Addresses targetMachine) = None"
    unfolding covered_def checkDNSNames_None_iff checkIPAddresses_None_iff ..
  show ?thesis
    unfolding cov r by (auto split: option.splits)
qed

lemma serving_target_machine:
  "findMatchingMachineFromNodeRef ''ip-10-0-1-6'' [machine_m1, machine_m2] = Some machine_m2"
  by (simp add: machine_m1_def machine_m2_def)

theorem serving_fallback_SAN_checks_witness:
  "authorizeCSR sample_externals one_node \<lparr>NodeClientCert_Disabled = False\<rparr>
      [machine_m1, machine_m2] (Some serving_req) (Some (serving_csr [10, 0, 1, 6])) None
     = (True, None)
   \<and> (\<exists>err. authorizeCSR sample_externals one_node \<lparr>NodeClientCert_Disabled = False\<rparr>
      [machine_m1, machine_m2] (Some serving_req) (Some (serving_csr [10, 0, 2, 2])) None
     = (False, Some err))"
proof -
  have no_ca: "\<not> (\<exists>cert. (None :: string CertPool option) \<noteq> None
          \<and> getServingCert sample_externals one_node ''ip-10-0-1-6'' None = Inr cert
          \<and> authorizeServingRenewal sample_externals ''ip-10-0-1-6'' (Some (serving_csr ip))
               (Some cert) \<lparr>Roots = None\<rparr> = None)" for ip
    by simp
  have ne: "''ip-10-0-1-6'' \<noteq> ''''" by simp
  note match = serving_fallback_SAN_checks
    [where c = one_node and config = "\<lparr>NodeClientCert_Disabled = False\<rparr>",
     OF serving_not_client serving_validate ne no_ca serving_target_machine,
     of "[10, 0, 1, 6]"]
  note mismatch = serving_fallback_SAN_checks
    [where c = one_node and config = "\<lparr>NodeClientCert_Disabled = False\<rparr>",
     OF serving_not_client serving_validate ne no_ca serving_target_machine,
     of "[10, 0, 2, 2]"]
  have a: "authorizeCSR sample_externals one_node \<lparr>NodeClientCert_Disabled = False\<rparr>
      [machine_m1, machine_m2] (Some serving_req) (Some (serving_csr [10, 0, 1, 6])) None
     = (True, None)"
    using match by (simp add: sample_defs)
  have b: "\<exists>err. authorizeCSR sample_externals one_node \<lparr>NodeClientCert_Disabled = False\<rparr>
      [machine_m1, machine_m2] (Some serving_req) (Some (serving_csr [10, 0, 2, 2])) None
     = (False, Some err)"
    using mismatch by (simp add: sample_defs)
  from a b show ?thesis by simp
qed

lemma sample_probe:
  "getServingCert sample_externals one_node ''ip-10-0-1-6'' (Some [kubelet_ca])
     = Inr serving_cert"
  by (simp add: getServingCert_def one_node_def nodeInternalIP_def node_n2_def
        NodeInternalIP_def sample_externals_def)

lemma sample_renewal:
  "authorizeServingRenewal sample_externals ''ip-10-0-1-6'' (Some (serving_csr [10, 0, 1, 6]))
     (Some serving_cert) \<lparr>Roots = Some [kubelet_ca]\<rparr> = None"
  by (simp add: authorizeServingRenewal_def equalStrings_iff_mset equalIPAddresses_iff_mset
        equalURLs_iff_mset sample_defs nodeUser_def)

text \<open>
  C5 as stated fails: with a CA pool, a kubelet that answers the probe and a renewal check
  that succeeds, a serving request whose asking name matches no Machine by NodeRef is
  approved; the Machine lookup is never reached.
\<close>

theorem serving_no_machine_counterexample:
  "\<not> isNodeClientCert sample_externals serving_req (serving_csr [10, 0, 1, 6])
   \<and> validateCSRContents serving_req (serving_csr [10, 0, 1, 6]) = (''ip-10-0-1-6'', None)
   \<and> findMatchingMachineFromNodeRef ''ip-10-0-1-6'' [machine_m1] = None
   \<and> getServingCert sample_externals one_node ''ip-10-0-1-6'' (Some [kubelet_ca])
        = Inr serving_cert
   \<and> authorizeServingRenewal sample_externals ''ip-10-0-1-6''
        (Some (serving_csr [10, 0, 1, 6])) (Some serving_cert) \<lparr>Roots = Some [kubelet_ca]\<rparr>
        = None
   \<and> authorizeCSR sample_externals one_node \<lparr>NodeClientCert_Disabled = False\<rparr> [machine_m1]
        (Some serving_req) (Some (serving_csr [10, 0, 1, 6])) (Some [kubelet_ca])
        = (True, None)"
proof -
  have nm: "findMatchingMachineFromNodeRef ''ip-10-0-1-6'' [machine_m1] = None"
    by (simp add: machine_m1_def)
  have "renewalAuthorized sample_externals one_node ''ip-10-0-1-6''
          (serving_csr [10, 0, 1, 6]) (Some [kubelet_ca])"
    by (simp add: renewalAuthorized_def sample_probe sample_renewal)
  then have "authorizeCSR sample_externals one_node \<lparr>NodeClientCert_Disabled = False\<rparr>
        [machine_m1] (Some serving_req) (Some (serving_csr [10, 0, 1, 6])) (Some [kubelet_ca])
        = (True, None)"
    by (simp add: authorizeCSR_def serving_validate serving_not_client)
  then show ?thesis
    using serving_not_client serving_validate nm sample_probe sample_renewal by simp
qed

text \<open>
  C5, as the code has it. For a serving request (both arguments non-nil, not a client
  request, \<open>validateCSRContents\<close> gives a non-empty asking name and no error) whose asking
  name is the NodeRef name of no Machine of the snapshot, \<open>authorizeCSR\<close> returns
  \<open>False\<close> with the error "Unable to find machine for node", unless a CA pool is
  supplied, the kubelet probe returns a certificate and \<open>authorizeServingRenewal\<close>
  returns nil for it, in which case it returns \<open>(True, None)\<close>.
\<close>

theorem serving_no_machine_decision:
  assumes "\<not> isNodeClientCert ext req csr"
    and "validateCSRContents req csr = (nodeAsking, None)"
    and "nodeAsking \<noteq> ''''"
    and "\<forall>m \<in> set machines. m_NodeRef m \<noteq> Some nodeAsking"
  shows "authorizeCSR ext c config machines (Some req) (Some csr) ca =
     (if \<exists>cert. ca \<noteq> None \<and> getServingCert ext c nodeAsking ca = Inr cert
            \<and> authorizeServingRenewal ext nodeAsking (Some csr) (Some cert) \<lparr>Roots = ca\<rparr>
                = None
      then (True, None)
      else (False, Some UnableToFindMachine))"
proof -
  have "findMatchingMachineFromNodeRef nodeAsking machines = None"
    using assms(4) by (rule findNodeRef_none)
  then show ?thesis
    using authorizeCSR_serving [OF assms(1-3), of c config machines ca]
    by (simp add: renewalAuthorized_iff)
qed

theorem serving_no_machine_decision_witness:
  "authorizeCSR sample_externals one_node \<lparr>NodeClientCert_Disabled = False\<rparr> [machine_m1]
      (Some serving_req) (Some (serving_csr [10, 0, 1, 6])) None
     = (False, Some UnableToFindMachine)
   \<and> authorizeCSR sample_externals one_node \<lparr>NodeClientCert_Disabled = False\<rparr> [machine_m1]
      (Some serving_req) (Some (serving_csr [10, 0, 1, 6])) (Some [kubelet_ca])
     = (True, None)"
proof -
  have ne: "''ip-10-0-1-6'' \<noteq> ''''" by simp
  have nm: "\<forall>m \<in> set [machine_m1]. m_NodeRef m \<noteq> Some ''ip-10-0-1-6''"
    by (simp add: machine_m1_def)
  note t = serving_no_machine_decision
    [where c = one_node and config = "\<lparr>NodeClientCert_Disabled = False\<rparr>",
     OF serving_not_client serving_validate ne nm, of "[10, 0, 1, 6]"]
  have a: "authorizeCSR sample_externals one_node \<lparr>NodeClientCert_Disabled = False\<rparr>
      [machine_m1] (Some serving_req) (Some (serving_csr [10, 0, 1, 6])) None
     = (False, Some UnableToFindMachine)"
    using t [of None] by simp
  have b: "authorizeCSR sample_externals one_node \<lparr>NodeClientCert_Disabled = False\<rparr>
      [machine_m1] (Some serving_req) (Some (serving_csr [10, 0, 1, 6])) (Some [kubelet_ca])
     = (True, None)"
    using t [of "Some [kubelet_ca]"] by (simp add: sample_probe sample_renewal)
  from a b show ?thesis by simp
qed

end
